theory Spec2Isabelle
  imports Main "HOL-Library.FSet" "HOL-Library.Char_ord" "HOL-Library.List_Lexorder"
begin

section \<open>Values of the configuration file\<close>

text \<open>
  \<^verbatim>\<open>yaml.safe_load\<close> returns plain Python values. Dictionary keys are hashable, so they
  are scalars; the items of a dictionary are kept in insertion order, which is the order
  \<^verbatim>\<open>node.items()\<close> iterates in, and their keys are distinct. Floats, dates and other scalars behave, for every
  operation of this program, like \<open>SInt\<close>: they are neither \<^verbatim>\<open>dict\<close>, \<^verbatim>\<open>list\<close>
  nor \<^verbatim>\<open>None\<close> and they have no \<^verbatim>\<open>strip\<close> method.
\<close>

datatype scalar = SNone | SBool bool | SInt int | SStr string

datatype yaml = YScalar scalar | YList "yaml list" | YDict "(scalar \<times> yaml) list"

datatype error =
    AttributeError | KeyError | TypeError | IndexError | ValueError
  | OSError string | YAMLError

section \<open>\<^verbatim>\<open>str.strip()\<close>\<close>

text \<open>
  Python strips the characters for which \<^verbatim>\<open>isspace\<close> holds. Strings are byte strings
  here (UTF-8, whose byte order is the order of the code points that Python compares
  strings by), so these are the ASCII ones: TAB, LF, VT, FF, CR, the separators
  0x1C..0x1F and the space.
\<close>

definition is_space :: "char \<Rightarrow> bool" where
  "is_space c = (of_char c \<in> {9, 10, 11, 12, 13, 28, 29, 30, 31, 32 :: nat})"

definition strip :: "string \<Rightarrow> string" where
  "strip s = rev (dropWhile is_space (rev (dropWhile is_space s)))"

text \<open>\<^verbatim>\<open>dir_name.strip()\<close> on a dictionary key: only \<^verbatim>\<open>str\<close> has the method.\<close>

fun key_strip :: "scalar \<Rightarrow> error + string" where
  "key_strip (SStr s) = Inr (strip s)"
| "key_strip _ = Inl AttributeError"

text \<open>\<^verbatim>\<open>dir_name.strip()\<close> on a list entry, which may be any value.\<close>

fun entry_strip :: "yaml \<Rightarrow> error + string" where
  "entry_strip (YScalar k) = key_strip k"
| "entry_strip _ = Inl AttributeError"

section \<open>\<^verbatim>\<open>pathlib\<close> paths (POSIX flavour)\<close>

text \<open>
  A pure path is its root (\<open>''''\<close>, \<open>''/''\<close> or \<open>''//''\<close>) and its name segments.
  Parsing splits at \<open>/\<close> and drops empty and \<open>.\<close> segments; \<open>..\<close> is kept.
\<close>

record path =
  anchor :: string
  names :: "string list"

fun split_sep :: "string \<Rightarrow> string list" where
  "split_sep [] = [[]]"
| "split_sep (c # cs) =
     (if c = CHR ''/'' then [] # split_sep cs
      else (case split_sep cs of [] \<Rightarrow> [[c]] | w # ws \<Rightarrow> (c # w) # ws))"

definition parse_root :: "string \<Rightarrow> string" where
  "parse_root s =
     (if take 1 s \<noteq> ''/'' then ''''
      else if take 2 s = ''//'' \<and> take 3 s \<noteq> ''///'' then ''//''
      else ''/'')"

definition parse_names :: "string \<Rightarrow> string list" where
  "parse_names s = filter (\<lambda>w. w \<noteq> '''' \<and> w \<noteq> ''.'') (split_sep s)"

definition Path :: "string \<Rightarrow> path" where
  "Path s = \<lparr>anchor = parse_root s, names = parse_names s\<rparr>"

text \<open>\<^verbatim>\<open>p / s\<close>: a rooted right operand replaces the left one.\<close>

definition joinpath :: "path \<Rightarrow> string \<Rightarrow> path" where
  "joinpath p s =
     (if parse_root s \<noteq> '''' then Path s
      else \<lparr>anchor = anchor p, names = names p @ parse_names s\<rparr>)"

fun join_sep :: "string list \<Rightarrow> string" where
  "join_sep [] = ''''"
| "join_sep [w] = w"
| "join_sep (w # ws) = w @ ''/'' @ join_sep ws"

text \<open>\<^verbatim>\<open>str(p)\<close>\<close>

definition path_str :: "path \<Rightarrow> string" where
  "path_str p =
     (if anchor p = '''' \<and> names p = [] then ''.''
      else anchor p @ join_sep (names p))"

text \<open>
  \<^verbatim>\<open>p.relative_to(q)\<close> raises \<^verbatim>\<open>ValueError\<close> unless \<open>q\<close> is a lexical prefix of
  \<open>p\<close> with the same root; the result is a relative path.
\<close>

definition relative_to :: "path \<Rightarrow> path \<Rightarrow> error + path" where
  "relative_to p q =
     (if anchor p = anchor q \<and> take (length (names q)) (names p) = names q
      then Inr \<lparr>anchor = '''', names = drop (length (names q)) (names p)\<rparr>
      else Inl ValueError)"

text \<open>\<^verbatim>\<open>p.parts\<close>: the root, when there is one, is the first part.\<close>

definition parts :: "path \<Rightarrow> string list" where
  "parts p = (if anchor p = '''' then [] else [anchor p]) @ names p"

section \<open>The environment\<close>

text \<open>
  The operating system and the YAML library are not part of the program. Their
  operations are parameters: each takes the file-system state and returns what the
  Python call returns or the exception it raises.
  \<^item> \<open>read_file\<close>: \<^verbatim>\<open>open(path, 'r').read()\<close>;
  \<^item> \<open>yaml_load\<close>: \<^verbatim>\<open>yaml.safe_load\<close>;
  \<^item> \<open>mkdir_p\<close>: \<^verbatim>\<open>path.mkdir(parents=True, exist_ok=True)\<close>, which may have created
    some ancestors when it raises;
  \<^item> \<open>path_exists\<close>: \<^verbatim>\<open>path.exists()\<close>;
  \<^item> \<open>path_resolve\<close>: \<^verbatim>\<open>str(path.resolve())\<close>;
  \<^item> \<open>write_file\<close>: \<^verbatim>\<open>open(name, 'w').write(text)\<close>;
  \<^item> \<open>is_dir\<close>: \<^verbatim>\<open>path.is_dir()\<close>, whether the path names a directory (an observation, the
    program never calls it);
  \<^item> \<open>readme_header\<close>, \<open>readme_footer\<close>: the fixed lines of the report around the
    directory tree, with the clock's time, the number of directories and
    \<^verbatim>\<open>yaml.dump\<close> of the configuration filled in.
\<close>

record 'fs os_env =
  read_file :: "'fs \<Rightarrow> string \<Rightarrow> error + string"
  yaml_load :: "string \<Rightarrow> error + yaml"
  mkdir_p :: "'fs \<Rightarrow> path \<Rightarrow> 'fs \<times> error option"
  path_exists :: "'fs \<Rightarrow> path \<Rightarrow> error + bool"
  path_resolve :: "'fs \<Rightarrow> path \<Rightarrow> error + string"
  write_file :: "'fs \<Rightarrow> string \<Rightarrow> string \<Rightarrow> 'fs \<times> error option"
  is_dir :: "'fs \<Rightarrow> path \<Rightarrow> bool"
  readme_header :: "'fs \<Rightarrow> nat \<Rightarrow> string list"
  readme_footer :: "yaml \<Rightarrow> string list"

section \<open>The generator\<close>

text \<open>The messages given to the logger, one constructor for each call site.\<close>

datatype event =
    ConfigLoaded string
  | ConfigLoadFailed error
  | DirCreateFailed path
  | DirCreated path
  | DirCreateError path error
  | ProcessChild path
  | GenerationStarted
  | EmptyNode
  | Unsupported
  | GenerationDone nat
  | ReadmeGenerated
  | ReadmeFailed
  | Interrupted error

text \<open>
  The mutable state of a run: the file system, \<^verbatim>\<open>self.created_dirs\<close> and what has been
  logged. \<^verbatim>\<open>self.config\<close> and \<^verbatim>\<open>self.root\<close> never change and are arguments.
\<close>

record 'fs gen_state =
  fs :: 'fs
  created_dirs :: "string fset"
  log :: "event list"

datatype ('a, 's) outcome = Return 'a 's | Raise error 's

definition logger :: "event \<Rightarrow> 'fs gen_state \<Rightarrow> 'fs gen_state" where
  "logger ev s = s\<lparr>log := log s @ [ev]\<rparr>"

definition new_generator :: "'fs \<Rightarrow> 'fs gen_state" where
  "new_generator f = \<lparr>fs = f, created_dirs = {||}, log = []\<rparr>"

text \<open>
  \<^verbatim>\<open>_load_config\<close>: any exception of \<^verbatim>\<open>open\<close>, of \<^verbatim>\<open>safe_load\<close> or of the subscript
  \<^verbatim>\<open>config['directory_structure']\<close> is logged and raised again. The subscript raises
  \<^verbatim>\<open>KeyError\<close> on a dictionary without the key and \<^verbatim>\<open>TypeError\<close> on a value that is
  not a dictionary.
\<close>

fun subscript :: "yaml \<Rightarrow> scalar \<Rightarrow> error + yaml" where
  "subscript (YDict items) k = (case map_of items k of None \<Rightarrow> Inl KeyError | Some v \<Rightarrow> Inr v)"
| "subscript _ k = Inl TypeError"

definition load_config :: "'fs os_env \<Rightarrow> string \<Rightarrow> 'fs gen_state \<Rightarrow> (yaml, 'fs gen_state) outcome" where
  "load_config env src s =
     (case read_file env (fs s) src of
        Inl e \<Rightarrow> Raise e (logger (ConfigLoadFailed e) s)
      | Inr text \<Rightarrow>
          (case yaml_load env text of
             Inl e \<Rightarrow> Raise e (logger (ConfigLoadFailed e) s)
           | Inr config \<Rightarrow>
               (let s1 = logger (ConfigLoaded src) s in
                case subscript config (SStr ''directory_structure'') of
                  Inl e \<Rightarrow> Raise e (logger (ConfigLoadFailed e) s1)
                | Inr v \<Rightarrow> Return v s1)))"

text \<open>
  \<^verbatim>\<open>_create_dir\<close>: the whole body is inside \<^verbatim>\<open>try ... except Exception\<close>, so every
  exception of \<^verbatim>\<open>mkdir\<close>, \<^verbatim>\<open>exists\<close> and \<^verbatim>\<open>resolve\<close> ends in \<^verbatim>\<open>return False\<close>.
\<close>

definition create_dir :: "'fs os_env \<Rightarrow> path \<Rightarrow> 'fs gen_state \<Rightarrow> bool \<times> 'fs gen_state" where
  "create_dir env p s =
     (case mkdir_p env (fs s) p of
        (f1, Some e) \<Rightarrow> (False, logger (DirCreateError p e) (s\<lparr>fs := f1\<rparr>))
      | (f1, None) \<Rightarrow>
          (let s1 = s\<lparr>fs := f1\<rparr> in
           case path_exists env f1 p of
             Inl e \<Rightarrow> (False, logger (DirCreateError p e) s1)
           | Inr False \<Rightarrow> (False, logger (DirCreateFailed p) s1)
           | Inr True \<Rightarrow>
               (case path_resolve env f1 p of
                  Inl e \<Rightarrow> (False, logger (DirCreateError p e) s1)
                | Inr a \<Rightarrow>
                    (True, logger (DirCreated p) (s1\<lparr>created_dirs := finsert a (created_dirs s1)\<rparr>)))))"

text \<open>
  \<^verbatim>\<open>_process_node\<close>. \<open>process_list\<close> is the loop over a list, \<open>process_dict\<close> the loop
  over the items of a dictionary and \<open>process_item\<close> the body of that loop. An exception
  of \<^verbatim>\<open>strip\<close> is not caught here: it ends the loop and every enclosing call.
\<close>

fun process_list :: "'fs os_env \<Rightarrow> yaml list \<Rightarrow> path \<Rightarrow> 'fs gen_state \<Rightarrow> (unit, 'fs gen_state) outcome" where
  "process_list env [] current_path s = Return () s"
| "process_list env (dir_name # rest) current_path s =
     (case entry_strip dir_name of
        Inl e \<Rightarrow> Raise e s
      | Inr nm \<Rightarrow>
          (let new_path = joinpath current_path nm in
           process_list env rest current_path (snd (create_dir env new_path s))))"

fun process_node :: "'fs os_env \<Rightarrow> yaml \<Rightarrow> path \<Rightarrow> 'fs gen_state \<Rightarrow> (unit, 'fs gen_state) outcome"
and process_dict :: "'fs os_env \<Rightarrow> (scalar \<times> yaml) list \<Rightarrow> path \<Rightarrow> 'fs gen_state \<Rightarrow> (unit, 'fs gen_state) outcome"
and process_item :: "'fs os_env \<Rightarrow> scalar \<times> yaml \<Rightarrow> path \<Rightarrow> 'fs gen_state \<Rightarrow> (unit, 'fs gen_state) outcome"
where
  "process_node env (YDict items) current_path s = process_dict env items current_path s"
| "process_node env (YList entries) current_path s = process_list env entries current_path s"
| "process_node env (YScalar SNone) current_path s = Return () (logger EmptyNode s)"
| "process_node env (YScalar _) current_path s = Return () (logger Unsupported s)"
| "process_dict env [] current_path s = Return () s"
| "process_dict env (item # rest) current_path s =
     (case process_item env item current_path s of
        Raise e s1 \<Rightarrow> Raise e s1
      | Return _ s1 \<Rightarrow> process_dict env rest current_path s1)"
| "process_item env (dir_name, children) current_path s =
     (case key_strip dir_name of
        Inl e \<Rightarrow> Raise e s
      | Inr nm \<Rightarrow>
          (let new_path = joinpath current_path nm in
           case create_dir env new_path s of
             (True, s1) \<Rightarrow> process_node env children new_path (logger (ProcessChild new_path) s1)
           | (False, s1) \<Rightarrow> Return () s1))"

text \<open>
  The loop of \<^verbatim>\<open>generate_readme\<close> that renders the tree. Only \<^verbatim>\<open>ValueError\<close> is
  caught; \<^verbatim>\<open>rel_path.parts[-1]\<close> raises \<^verbatim>\<open>IndexError\<close> on a path without parts, and
  \<^verbatim>\<open>"    " * n\<close> is empty for a negative \<open>n\<close>.
\<close>

definition tree_line :: "path \<Rightarrow> string \<Rightarrow> error + string" where
  "tree_line root dir_path =
     (case relative_to (Path dir_path) root of
        Inl e \<Rightarrow> (if e = ValueError then Inr (''- '' @ dir_path) else Inl e)
      | Inr rel_path \<Rightarrow>
          (let indent = concat (replicate (length (parts rel_path) - 1) ''    '') in
           if parts rel_path = [] then Inl IndexError
           else Inr (indent @ ''- '' @ last (parts rel_path))))"

fun dir_tree :: "path \<Rightarrow> string list \<Rightarrow> error + string list" where
  "dir_tree root [] = Inr []"
| "dir_tree root (dir_path # rest) =
     (case tree_line root dir_path of
        Inl e \<Rightarrow> Inl e
      | Inr line \<Rightarrow>
          (case dir_tree root rest of
             Inl e \<Rightarrow> Inl e
           | Inr lines \<Rightarrow> Inr (line # lines)))"

fun join_lines :: "string list \<Rightarrow> string" where
  "join_lines [] = ''''"
| "join_lines [l] = l"
| "join_lines (l # ls) = l @ [CHR 0x0A] @ join_lines ls"

text \<open>
  \<^verbatim>\<open>generate_readme\<close>: a failure to write the file is the result \<^verbatim>\<open>False\<close>; an
  exception of the rendering loop is not caught.
\<close>

definition generate_readme :: "'fs os_env \<Rightarrow> yaml \<Rightarrow> path \<Rightarrow> 'fs gen_state \<Rightarrow> (bool, 'fs gen_state) outcome" where
  "generate_readme env config root s =
     (let header = readme_header env (fs s) (fcard (created_dirs s)) in
      case dir_tree root (sorted_list_of_fset (created_dirs s)) of
        Inl e \<Rightarrow> Raise e s
      | Inr lines \<Rightarrow>
          (let text = join_lines (header @ lines @ readme_footer env config) in
           case write_file env (fs s) ''README.md'' text of
             (f1, None) \<Rightarrow> Return True (s\<lparr>fs := f1\<rparr>)
           | (f1, Some e) \<Rightarrow> Return False (s\<lparr>fs := f1\<rparr>)))"

text \<open>
  \<^verbatim>\<open>generate\<close>: every exception of the walk or of the report is logged and raised
  again; otherwise the result is \<^verbatim>\<open>sorted(self.created_dirs)\<close>.
\<close>

definition generate :: "'fs os_env \<Rightarrow> yaml \<Rightarrow> path \<Rightarrow> 'fs gen_state \<Rightarrow> (string list, 'fs gen_state) outcome" where
  "generate env config root s =
     (case process_node env config root (logger GenerationStarted s) of
        Raise e s1 \<Rightarrow> Raise e (logger (Interrupted e) s1)
      | Return _ s1 \<Rightarrow>
          (case generate_readme env config root (logger (GenerationDone (fcard (created_dirs s1))) s1) of
             Raise e s2 \<Rightarrow> Raise e (logger (Interrupted e) s2)
           | Return readme_result s2 \<Rightarrow>
               Return (sorted_list_of_fset (created_dirs s2))
                 (logger (if readme_result then ReadmeGenerated else ReadmeFailed) s2)))"

section \<open>A file system to run the generator on\<close>

text \<open>
  A small deterministic file system without symbolic links, for running the definitions
  above on concrete inputs. Its state is the set of existing directories, each the list
  of its segments below \<open>/\<close>; the working directory is \<open>/\<close>. The paths in \<open>blocked\<close>
  can never become directories (a regular file is there, or permission is denied).
  \<open>mkdir\<close> with parents walks the lexical prefixes of the path, as the recursion of
  \<^verbatim>\<open>Path.mkdir\<close> does, and stops at the first one that it cannot create.
\<close>

fun normalise :: "string list \<Rightarrow> string list \<Rightarrow> string list" where
  "normalise acc [] = acc"
| "normalise acc (w # ws) =
     (if w = ''..'' then normalise (butlast acc) ws else normalise (acc @ [w]) ws)"

definition target :: "path \<Rightarrow> string list" where
  "target p = normalise [] (names p)"

definition ancestors :: "path \<Rightarrow> string list list" where
  "ancestors p = map (\<lambda>n. normalise [] (take n (names p))) [1..<Suc (length (names p))]"

fun mk_all :: "string list set \<Rightarrow> string list list \<Rightarrow> string list set \<Rightarrow> string list set \<times> error option" where
  "mk_all blocked [] f = (f, None)"
| "mk_all blocked (t # ts) f =
     (if t \<in> f \<or> t = [] then mk_all blocked ts f
      else if t \<in> blocked then (f, Some (OSError (''/'' @ join_sep t)))
      else mk_all blocked ts (insert t f))"

definition sim_env :: "string list set \<Rightarrow> (string list set) os_env" where
  "sim_env blocked =
     \<lparr>read_file = (\<lambda>f src. Inl (OSError src)),
      yaml_load = (\<lambda>text. Inl YAMLError),
      mkdir_p = (\<lambda>f p. mk_all blocked (ancestors p) f),
      path_exists = (\<lambda>f p. Inr (target p \<in> f \<or> target p = [])),
      path_resolve = (\<lambda>f p. Inr (''/'' @ join_sep (target p))),
      write_file = (\<lambda>f name text. (f, if parse_names name \<in> blocked \<union> f then Some (OSError name) else None)),
      is_dir = (\<lambda>f p. target p \<in> f \<or> target p = []),
      readme_header = (\<lambda>f n. []),
      readme_footer = (\<lambda>config. [])\<rparr>"

section \<open>Observations on outcomes and on the log\<close>

fun raised :: "('a, 's) outcome \<Rightarrow> error option" where
  "raised (Return _ _) = None"
| "raised (Raise e _) = Some e"

fun state_of :: "('a, 's) outcome \<Rightarrow> 's" where
  "state_of (Return _ s) = s"
| "state_of (Raise _ s) = s"

text \<open>
  Every call of \<^verbatim>\<open>_create_dir\<close> logs exactly one message that names its path, so the
  calls made during a stretch of a run can be read off the log.
\<close>

fun attempt_of :: "event \<Rightarrow> path list" where
  "attempt_of (DirCreated p) = [p]"
| "attempt_of (DirCreateFailed p) = [p]"
| "attempt_of (DirCreateError p e) = [p]"
| "attempt_of _ = []"

definition attempts :: "event list \<Rightarrow> path list" where
  "attempts evs = concat (map attempt_of evs)"

definition new_events :: "'fs gen_state \<Rightarrow> 'fs gen_state \<Rightarrow> event list" where
  "new_events s s' = drop (length (log s)) (log s')"

text \<open>Whether \<^verbatim>\<open>config[k]\<close> finds a value: the value is a dictionary with the key \<open>k\<close>.\<close>

fun has_field :: "yaml \<Rightarrow> scalar \<Rightarrow> bool" where
  "has_field (YDict items) k = (map_of items k \<noteq> None)"
| "has_field _ k = False"


section \<open>Shapes of configuration trees\<close>








section \<open>Assumptions on the environment\<close>


section \<open>Where the attempted paths lie\<close>



section \<open>Running twice\<close>

text \<open>Two file-system states have the same directories.\<close>

definition dirs_eq :: "'fs os_env \<Rightarrow> 'fs \<Rightarrow> 'fs \<Rightarrow> bool" where
  "dirs_eq env f g = (\<forall>p. is_dir env f p = is_dir env g p)"









section \<open>Directory creation\<close>

lemma create_dir_fs: "fs (snd (create_dir env p s)) = fst (mkdir_p env (fs s) p)"
  by (simp add: create_dir_def logger_def Let_def split: prod.splits option.splits sum.splits bool.splits)

lemma create_dir_log:
  "\<exists>ev. log (snd (create_dir env p s)) = log s @ [ev] \<and> attempt_of ev = [p]"
  by (simp add: create_dir_def logger_def Let_def split: prod.splits option.splits sum.splits bool.splits)

lemma create_dir_attempts:
  "attempts (new_events s (snd (create_dir env p s))) = [p]"
  using create_dir_log [of env p s] by (auto simp: attempts_def new_events_def)

lemma create_dir_recorded:
  "create_dir env p s = (True, s') \<Longrightarrow>
     \<exists>a. path_resolve env (fst (mkdir_p env (fs s) p)) p = Inr a \<and> created_dirs s' = finsert a (created_dirs s)"
  by (auto simp: create_dir_def logger_def Let_def split: prod.splits option.splits sum.splits bool.splits)

lemma create_dir_unrecorded:
  "create_dir env p s = (False, s') \<Longrightarrow> created_dirs s' = created_dirs s"
  by (auto simp: create_dir_def logger_def Let_def split: prod.splits option.splits sum.splits bool.splits)

text \<open>
  Claim C4. \<open>create_dir\<close> has a boolean result and no exceptional one: an error of
  \<open>mkdir\<close>, \<open>exists\<close> or \<open>resolve\<close> gives \<open>False\<close>. It returns \<open>True\<close> exactly when
  all three succeed and the path exists, and exactly then the resolved path string is
  added to \<open>created_dirs\<close>; on \<open>False\<close> the set is unchanged.
\<close>

theorem create_dir_contains:
  "create_dir env p s = (ok, s') \<Longrightarrow>
     fs s' = fst (mkdir_p env (fs s) p)
   \<and> (ok \<longleftrightarrow> snd (mkdir_p env (fs s) p) = None \<and> path_exists env (fs s') p = Inr True
             \<and> (\<exists>a. path_resolve env (fs s') p = Inr a))
   \<and> (ok \<longrightarrow> (\<exists>a. path_resolve env (fs s') p = Inr a \<and> created_dirs s' = finsert a (created_dirs s)))
   \<and> (\<not> ok \<longrightarrow> created_dirs s' = created_dirs s)"
  using create_dir_recorded [of env p s s'] create_dir_unrecorded [of env p s s']
  by (auto simp: create_dir_def logger_def Let_def split: prod.splits option.splits sum.splits bool.splits)

theorem create_dir_contains_witness:
  "create_dir (sim_env {[''R'', ''B'']}) (Path ''/R/B'') (new_generator {}) =
     (False, \<lparr>fs = {[''R'']}, created_dirs = {||},
              log = [DirCreateError \<lparr>anchor = ''/'', names = [''R'', ''B'']\<rparr> (OSError ''/R/B'')]\<rparr>)
   \<and> created_dirs \<lparr>fs = {[''R'']}, created_dirs = {||},
              log = [DirCreateError \<lparr>anchor = ''/'', names = [''R'', ''B'']\<rparr> (OSError ''/R/B'')]\<rparr>
       = created_dirs (new_generator ({} :: string list set))
   \<and> create_dir (sim_env {[''R'', ''B'']}) (Path ''/R/A'') (new_generator {}) =
     (True, \<lparr>fs = {[''R'', ''A''], [''R'']}, created_dirs = {|''/R/A''|},
             log = [DirCreated \<lparr>anchor = ''/'', names = [''R'', ''A'']\<rparr>]\<rparr>)
   \<and> (\<exists>a. path_resolve (sim_env {[''R'', ''B'']}) {[''R'', ''A''], [''R'']} (Path ''/R/A'') = Inr a
          \<and> {|''/R/A''|} = finsert a {||})"
proof -
  have h: "create_dir (sim_env {[''R'', ''B'']}) (Path ''/R/B'') (new_generator {}) =
     (False, \<lparr>fs = {[''R'']}, created_dirs = {||},
              log = [DirCreateError \<lparr>anchor = ''/'', names = [''R'', ''B'']\<rparr> (OSError ''/R/B'')]\<rparr>)"
    by code_simp
  have k: "create_dir (sim_env {[''R'', ''B'']}) (Path ''/R/A'') (new_generator {}) =
     (True, \<lparr>fs = {[''R'', ''A''], [''R'']}, created_dirs = {|''/R/A''|},
             log = [DirCreated \<lparr>anchor = ''/'', names = [''R'', ''A'']\<rparr>]\<rparr>)"
    by code_simp
  from create_dir_contains [OF k]
  have "\<exists>a. path_resolve (sim_env {[''R'', ''B'']})
            (fs \<lparr>fs = {[''R'', ''A''], [''R'']}, created_dirs = {|''/R/A''|},
                 log = [DirCreated \<lparr>anchor = ''/'', names = [''R'', ''A'']\<rparr>]\<rparr>) (Path ''/R/A'') = Inr a
          \<and> created_dirs \<lparr>fs = {[''R'', ''A''], [''R'']}, created_dirs = {|''/R/A''|},
                 log = [DirCreated \<lparr>anchor = ''/'', names = [''R'', ''A'']\<rparr>]\<rparr>
              = finsert a (created_dirs (new_generator ({} :: string list set)))"
    by blast
  then have "\<exists>a. path_resolve (sim_env {[''R'', ''B'']}) {[''R'', ''A''], [''R'']} (Path ''/R/A'') = Inr a
          \<and> {|''/R/A''|} = finsert a {||}"
    by (simp add: new_generator_def)
  with create_dir_contains [OF h] h k show ?thesis by blast
qed

section \<open>Loading the configuration\<close>

lemma subscript_Inr:
  "subscript c k = Inr v \<longleftrightarrow> (\<exists>items. c = YDict items \<and> map_of items k = Some v)"
  by (cases c) (auto split: option.splits)

lemma has_field_subscript: "has_field c k \<longleftrightarrow> (\<exists>v. subscript c k = Inr v)"
  by (cases c) (auto split: option.splits)

text \<open>
  Claim C6. \<open>load_config\<close> returns exactly when the source is read, the text is parsed
  and the parsed value is a dictionary with the key \<open>directory_structure\<close>; the result
  is then the value stored under that key. It raises exactly when reading fails, parsing
  fails, or the parsed value has no such field (a value that is not a dictionary has no
  fields).
\<close>

theorem load_config_exact:
  "(load_config env src s = Return v s' \<longleftrightarrow>
      (\<exists>text items. read_file env (fs s) src = Inr text \<and> yaml_load env text = Inr (YDict items)
         \<and> map_of items (SStr ''directory_structure'') = Some v \<and> s' = logger (ConfigLoaded src) s))
   \<and> (raised (load_config env src s) \<noteq> None \<longleftrightarrow>
      (\<exists>e. read_file env (fs s) src = Inl e)
      \<or> (\<exists>text e. read_file env (fs s) src = Inr text \<and> yaml_load env text = Inl e)
      \<or> (\<exists>text config. read_file env (fs s) src = Inr text \<and> yaml_load env text = Inr config
            \<and> has_field config (SStr ''directory_structure'') = False))"
proof -
  have a: "load_config env src s = Return v s' \<longleftrightarrow>
      (\<exists>text items. read_file env (fs s) src = Inr text \<and> yaml_load env text = Inr (YDict items)
         \<and> map_of items (SStr ''directory_structure'') = Some v \<and> s' = logger (ConfigLoaded src) s)"
    by (auto simp: load_config_def Let_def subscript_Inr split: sum.splits)
  have b: "raised (load_config env src s) \<noteq> None \<longleftrightarrow>
      (\<exists>e. read_file env (fs s) src = Inl e)
      \<or> (\<exists>text e. read_file env (fs s) src = Inr text \<and> yaml_load env text = Inl e)
      \<or> (\<exists>text config. read_file env (fs s) src = Inr text \<and> yaml_load env text = Inr config
            \<and> has_field config (SStr ''directory_structure'') = False)"
    by (auto simp: load_config_def Let_def has_field_subscript split: sum.splits)
  from a b show ?thesis by blast
qed

theorem load_config_exact_witness:
  "load_config
     ((sim_env {})\<lparr>read_file := \<lambda>f src. Inr ''directory_structure: {A: null}'',
                   yaml_load := \<lambda>text. Inr (YDict [(SStr ''directory_structure'', YDict [(SStr ''A'', YScalar SNone)])])\<rparr>)
     ''config.yaml'' (new_generator {})
   = Return (YDict [(SStr ''A'', YScalar SNone)]) (logger (ConfigLoaded ''config.yaml'') (new_generator {}))
   \<and> raised (load_config
       ((sim_env {})\<lparr>read_file := \<lambda>f src. Inr ''[A, B]'',
                     yaml_load := \<lambda>text. Inr (YList [YScalar (SStr ''A''), YScalar (SStr ''B'')])\<rparr>)
       ''config.yaml'' (new_generator {})) \<noteq> None"
proof -
  have a: "load_config
     ((sim_env {})\<lparr>read_file := \<lambda>f src. Inr ''directory_structure: {A: null}'',
                   yaml_load := \<lambda>text. Inr (YDict [(SStr ''directory_structure'', YDict [(SStr ''A'', YScalar SNone)])])\<rparr>)
     ''config.yaml'' (new_generator {})
   = Return (YDict [(SStr ''A'', YScalar SNone)]) (logger (ConfigLoaded ''config.yaml'') (new_generator {}))"
    by (rule load_config_exact [THEN conjunct1, THEN iffD2]) simp
  have b: "raised (load_config
       ((sim_env {})\<lparr>read_file := \<lambda>f src. Inr ''[A, B]'',
                     yaml_load := \<lambda>text. Inr (YList [YScalar (SStr ''A''), YScalar (SStr ''B'')])\<rparr>)
       ''config.yaml'' (new_generator {})) \<noteq> None"
    by (rule load_config_exact [THEN conjunct2, THEN iffD2]) simp
  from a b show ?thesis by (rule conjI)
qed

section \<open>The walk\<close>




lemma process_list_grows:
  "\<exists>evs. log (state_of (process_list env entries cur s)) = log s @ evs"
proof (induction entries arbitrary: s)
  case Nil
  then show ?case by simp
next
  case (Cons x xs)
  show ?case
  proof (cases "entry_strip x")
    case (Inl e)
    then show ?thesis by simp
  next
    case (Inr nm)
    obtain ev where "log (snd (create_dir env (joinpath cur nm) s)) = log s @ [ev]"
      using create_dir_log by blast
    with Cons.IH [of "snd (create_dir env (joinpath cur nm) s)"] Inr
    show ?thesis by (auto simp: Let_def)
  qed
qed

lemma walk_grows:
  "\<exists>evs. log (state_of (process_node env node cur s)) = log s @ evs"
  "\<exists>evs. log (state_of (process_dict env items cur s)) = log s @ evs"
  "\<exists>evs. log (state_of (process_item env item cur s)) = log s @ evs"
proof (induction env node cur s and env items cur s and env item cur s
       rule: process_node_process_dict_process_item.induct)
  case (2 env entries current_path s)
  then show ?case by (simp add: process_list_grows)
next
  case (6 env item rest current_path s)
  show ?case
  proof (cases "process_item env item current_path s")
    case (Return u s1)
    with 6 show ?thesis by (cases u) fastforce
  next
    case (Raise e s1)
    with 6 show ?thesis by simp
  qed
next
  case (7 env dir_name children current_path s)
  show ?case
  proof (cases "key_strip dir_name")
    case (Inl e)
    then show ?thesis by simp
  next
    case (Inr nm)
    obtain ok s1 where c: "create_dir env (joinpath current_path nm) s = (ok, s1)"
      by (cases "create_dir env (joinpath current_path nm) s")
    obtain ev where ev: "log s1 = log s @ [ev]"
      using create_dir_log [of env "joinpath current_path nm" s] c by auto
    show ?thesis
    proof (cases ok)
      case True
      with 7(1) [OF Inr refl c [symmetric]] c Inr ev show ?thesis
        by (auto simp: logger_def Let_def)
    next
      case False
      with c Inr ev show ?thesis by simp
    qed
  qed
qed (simp_all add: logger_def)

lemma process_dict_append:
  "process_dict env (xs @ ys) cur s =
     (case process_dict env xs cur s of
        Raise e s1 \<Rightarrow> Raise e s1
      | Return _ s1 \<Rightarrow> process_dict env ys cur s1)"
  by (induction xs arbitrary: s) (auto split: outcome.splits)

lemma process_item_failed:
  assumes "\<not> fst (create_dir env (joinpath cur (strip nm)) s)"
  shows "process_item env (SStr nm, children) cur s = Return () (snd (create_dir env (joinpath cur (strip nm)) s))"
  using assms by (cases "create_dir env (joinpath cur (strip nm)) s") (auto simp: Let_def)

lemma process_item_created:
  assumes "fst (create_dir env (joinpath cur (strip nm)) s)"
  shows "process_item env (SStr nm, children) cur s =
     process_node env children (joinpath cur (strip nm))
       (logger (ProcessChild (joinpath cur (strip nm))) (snd (create_dir env (joinpath cur (strip nm)) s)))"
  using assms by (cases "create_dir env (joinpath cur (strip nm)) s") (auto simp: Let_def)

lemma process_item_child_logged:
  "ProcessChild (joinpath cur (strip nm)) \<in> set (new_events s (state_of (process_item env (SStr nm, children) cur s)))
     \<longleftrightarrow> fst (create_dir env (joinpath cur (strip nm)) s)"
proof (cases "fst (create_dir env (joinpath cur (strip nm)) s)")
  case True
  let ?p = "joinpath cur (strip nm)"
  let ?s1 = "snd (create_dir env ?p s)"
  obtain ev where ev: "log ?s1 = log s @ [ev]"
    using create_dir_log by blast
  obtain evs where "log (state_of (process_node env children ?p (logger (ProcessChild ?p) ?s1)))
      = log (logger (ProcessChild ?p) ?s1) @ evs"
    using walk_grows(1) by blast
  with ev True show ?thesis
    unfolding process_item_created [OF True] by (simp add: new_events_def logger_def)
next
  case False
  let ?p = "joinpath cur (strip nm)"
  obtain ev where ev: "log (snd (create_dir env ?p s)) = log s @ [ev]" "attempt_of ev = [?p]"
    using create_dir_log by blast
  then have "ev \<noteq> ProcessChild ?p" by auto
  with ev False show ?thesis
    unfolding process_item_failed [OF False] by (simp add: new_events_def)
qed

text \<open>
  Claim C1. The items of a dictionary are handled in order: the walk of the dictionary
  \<open>xs @ ys\<close> is the walk of \<open>xs\<close> followed, unless it raised, by the walk of \<open>ys\<close>, and
  the walk of a dictionary starts with the body \<open>process_item\<close> for its first item. For an item
  \<open>(nm, children)\<close> the body calls \<open>create_dir\<close> at the current path joined with the
  stripped name. The message that announces the descent into \<open>children\<close> is logged if
  and only if that call returned \<open>True\<close>, and then the body is the walk of \<open>children\<close>
  at the new path. If the call returned \<open>False\<close> the body ends in the state the call
  left, whatever \<open>children\<close> is: the only call of \<open>create_dir\<close> is the failed one and
  the only change of the file system is that of its \<open>mkdir\<close>.
\<close>

theorem branch_short_circuit:
  "process_node env (YDict (xs @ ys)) cur s =
     (case process_node env (YDict xs) cur s of
        Raise e s1 \<Rightarrow> Raise e s1
      | Return _ s1 \<Rightarrow> process_node env (YDict ys) cur s1)
   \<and> process_node env (YDict ((SStr nm, children) # ys)) cur s =
     (case process_item env (SStr nm, children) cur s of
        Raise e s1 \<Rightarrow> Raise e s1
      | Return _ s1 \<Rightarrow> process_node env (YDict ys) cur s1)
   \<and> (ProcessChild (joinpath cur (strip nm)) \<in> set (new_events s (state_of (process_item env (SStr nm, children) cur s)))
        \<longleftrightarrow> fst (create_dir env (joinpath cur (strip nm)) s))
   \<and> (fst (create_dir env (joinpath cur (strip nm)) s) \<longrightarrow>
        process_item env (SStr nm, children) cur s =
          process_node env children (joinpath cur (strip nm))
            (logger (ProcessChild (joinpath cur (strip nm))) (snd (create_dir env (joinpath cur (strip nm)) s))))
   \<and> (\<not> fst (create_dir env (joinpath cur (strip nm)) s) \<longrightarrow>
        process_item env (SStr nm, children) cur s = Return () (snd (create_dir env (joinpath cur (strip nm)) s))
        \<and> attempts (new_events s (state_of (process_item env (SStr nm, children) cur s))) = [joinpath cur (strip nm)]
        \<and> fs (state_of (process_item env (SStr nm, children) cur s)) = fst (mkdir_p env (fs s) (joinpath cur (strip nm))))"
proof -
  have "\<not> fst (create_dir env (joinpath cur (strip nm)) s) \<Longrightarrow>
        attempts (new_events s (state_of (process_item env (SStr nm, children) cur s))) = [joinpath cur (strip nm)]
        \<and> fs (state_of (process_item env (SStr nm, children) cur s)) = fst (mkdir_p env (fs s) (joinpath cur (strip nm)))"
    using process_item_failed [of env cur nm s children]
    by (simp add: create_dir_attempts create_dir_fs del: process_node.simps process_dict.simps process_item.simps)
  moreover have "process_node env (YDict (xs @ ys)) cur s =
     (case process_node env (YDict xs) cur s of
        Raise e s1 \<Rightarrow> Raise e s1
      | Return _ s1 \<Rightarrow> process_node env (YDict ys) cur s1)"
    using process_dict_append [of env xs ys cur s] by (simp split: outcome.splits)
  moreover have "process_node env (YDict ((SStr nm, children) # ys)) cur s =
     (case process_item env (SStr nm, children) cur s of
        Raise e s1 \<Rightarrow> Raise e s1
      | Return _ s1 \<Rightarrow> process_node env (YDict ys) cur s1)"
    by (simp split: outcome.splits)
  ultimately show ?thesis
    using process_item_child_logged [of cur nm s env children]
      process_item_created [of env cur nm s children] process_item_failed [of env cur nm s children]
    by blast
qed

theorem branch_short_circuit_witness:
  "\<not> fst (create_dir (sim_env {[''R'', ''A'']}) (joinpath (Path ''/R'') (strip '' A '')) (new_generator {}))
   \<and> process_item (sim_env {[''R'', ''A'']}) (SStr '' A '', YDict [(SStr ''B'', YList [YScalar (SStr ''C'')])])
        (Path ''/R'') (new_generator {})
      = Return () (snd (create_dir (sim_env {[''R'', ''A'']}) (joinpath (Path ''/R'') (strip '' A '')) (new_generator {})))
   \<and> attempts (new_events (new_generator {}) (state_of
        (process_item (sim_env {[''R'', ''A'']}) (SStr '' A '', YDict [(SStr ''B'', YList [YScalar (SStr ''C'')])])
           (Path ''/R'') (new_generator {}))))
      = [joinpath (Path ''/R'') (strip '' A '')]
   \<and> fst (create_dir (sim_env {}) (joinpath (Path ''/R'') (strip '' A '')) (new_generator {}))
   \<and> process_item (sim_env {}) (SStr '' A '', YDict [(SStr ''B'', YList [YScalar (SStr ''C'')])])
        (Path ''/R'') (new_generator {})
      = process_node (sim_env {}) (YDict [(SStr ''B'', YList [YScalar (SStr ''C'')])]) (joinpath (Path ''/R'') (strip '' A ''))
          (logger (ProcessChild (joinpath (Path ''/R'') (strip '' A '')))
             (snd (create_dir (sim_env {}) (joinpath (Path ''/R'') (strip '' A '')) (new_generator {}))))"
proof -
  have f: "\<not> fst (create_dir (sim_env {[''R'', ''A'']}) (joinpath (Path ''/R'') (strip '' A '')) (new_generator {}))"
    by code_simp
  have t: "fst (create_dir (sim_env {}) (joinpath (Path ''/R'') (strip '' A '')) (new_generator {}))"
    by code_simp
  from f t
    branch_short_circuit [of "sim_env {[''R'', ''A'']}" "[]" "[]" "Path ''/R''" "new_generator {}" "'' A ''"
      "YDict [(SStr ''B'', YList [YScalar (SStr ''C'')])]"]
    branch_short_circuit [of "sim_env {}" "[]" "[]" "Path ''/R''" "new_generator {}" "'' A ''"
      "YDict [(SStr ''B'', YList [YScalar (SStr ''C'')])]"]
  show ?thesis by blast
qed

section \<open>The driver\<close>

lemma sorted_list_of_fset_strict: "sorted_wrt (<) (sorted_list_of_fset S)"
  by (simp add: sorted_list_of_fset.rep_eq strict_sorted_iff)

lemma string_less_lexord:
  "(a :: string) < b \<longleftrightarrow> (a, b) \<in> lexord {(c, d). (of_char c :: nat) < of_char d}"
  by (simp add: list_less_def less_char_def)

lemma generate_readme_created:
  "created_dirs (state_of (generate_readme env config root s)) = created_dirs s"
  by (simp add: generate_readme_def Let_def split: sum.splits prod.splits option.splits)

lemma generate_Return:
  "generate env config root s = Return xs s' \<longleftrightarrow>
      (\<exists>s1 ok s2. process_node env config root (logger GenerationStarted s) = Return () s1
         \<and> generate_readme env config root (logger (GenerationDone (fcard (created_dirs s1))) s1) = Return ok s2
         \<and> xs = sorted_list_of_fset (created_dirs s1)
         \<and> s' = logger (if ok then ReadmeGenerated else ReadmeFailed) s2)"
proof (cases "process_node env config root (logger GenerationStarted s)")
  case (Return u s1)
  show ?thesis
  proof (cases "generate_readme env config root (logger (GenerationDone (fcard (created_dirs s1))) s1)")
    case r: (Return ok s2)
    have "created_dirs s2 = created_dirs s1"
      using generate_readme_created [of env config root "logger (GenerationDone (fcard (created_dirs s1))) s1"] r
      by (simp add: logger_def)
    with Return r show ?thesis by (auto simp: generate_def)
  next
    case (Raise e s2)
    with Return show ?thesis by (auto simp: generate_def)
  qed
next
  case (Raise e s1)
  then show ?thesis by (auto simp: generate_def)
qed

text \<open>
  Claim C5. \<open>generate\<close> returns exactly when the walk of the tree from the root path
  returns and the report, built after it, does not raise. The result is then the
  content of \<open>created_dirs\<close> after the walk, as a list that is strictly increasing in the
  lexicographic order of strings (characters compared by their codes).
\<close>

theorem generate_returns_sorted:
  "(generate env config root s = Return xs s' \<longleftrightarrow>
      (\<exists>s1 ok s2. process_node env config root (logger GenerationStarted s) = Return () s1
         \<and> generate_readme env config root (logger (GenerationDone (fcard (created_dirs s1))) s1) = Return ok s2
         \<and> xs = sorted_list_of_fset (created_dirs s1)
         \<and> s' = logger (if ok then ReadmeGenerated else ReadmeFailed) s2))
   \<and> (generate env config root s = Return xs s' \<longrightarrow>
        set xs = fset (created_dirs (state_of (process_node env config root (logger GenerationStarted s))))
        \<and> sorted_wrt (\<lambda>a b. (a, b) \<in> lexord {(c, d). (of_char c :: nat) < of_char d}) xs)"
proof -
  have "set xs = fset (created_dirs (state_of (process_node env config root (logger GenerationStarted s))))
        \<and> sorted_wrt (\<lambda>a b. (a, b) \<in> lexord {(c, d). (of_char c :: nat) < of_char d}) xs"
    if "generate env config root s = Return xs s'"
  proof -
    from that obtain s1 where s1: "process_node env config root (logger GenerationStarted s) = Return () s1"
        "xs = sorted_list_of_fset (created_dirs s1)"
      unfolding generate_Return by blast
    have "sorted_wrt (<) xs" by (simp add: s1 sorted_list_of_fset_strict)
    then have "sorted_wrt (\<lambda>a b. (a, b) \<in> lexord {(c, d). (of_char c :: nat) < of_char d}) xs"
      by (simp add: string_less_lexord [abs_def])
    with s1 show ?thesis by simp
  qed
  with generate_Return [of env config root s xs s'] show ?thesis by blast
qed

theorem generate_returns_sorted_witness:
  "generate (sim_env {})
     (YDict [(SStr ''A'', YList [YScalar (SStr ''B''), YScalar (SStr ''C'')]), (SStr ''D'', YScalar SNone)])
     (Path ''R'') (new_generator {})
   = Return [''/R/A'', ''/R/A/B'', ''/R/A/C'', ''/R/D'']
       \<lparr>fs = {[''R'', ''D''], [''R'', ''A'', ''C''], [''R'', ''A'', ''B''], [''R'', ''A''], [''R'']},
        created_dirs = {|''/R/D'', ''/R/A/C'', ''/R/A/B'', ''/R/A''|},
        log = [GenerationStarted, DirCreated (Path ''R/A''), ProcessChild (Path ''R/A''),
               DirCreated (Path ''R/A/B''), DirCreated (Path ''R/A/C''), DirCreated (Path ''R/D''),
               ProcessChild (Path ''R/D''), EmptyNode, GenerationDone 4, ReadmeGenerated]\<rparr>
   \<and> sorted_wrt (\<lambda>a b. (a, b) \<in> lexord {(c, d). (of_char c :: nat) < of_char d})
       [''/R/A'', ''/R/A/B'', ''/R/A/C'', ''/R/D'']"
proof -
  have h: "generate (sim_env {})
     (YDict [(SStr ''A'', YList [YScalar (SStr ''B''), YScalar (SStr ''C'')]), (SStr ''D'', YScalar SNone)])
     (Path ''R'') (new_generator {})
   = Return [''/R/A'', ''/R/A/B'', ''/R/A/C'', ''/R/D'']
       \<lparr>fs = {[''R'', ''D''], [''R'', ''A'', ''C''], [''R'', ''A'', ''B''], [''R'', ''A''], [''R'']},
        created_dirs = {|''/R/D'', ''/R/A/C'', ''/R/A/B'', ''/R/A''|},
        log = [GenerationStarted, DirCreated (Path ''R/A''), ProcessChild (Path ''R/A''),
               DirCreated (Path ''R/A/B''), DirCreated (Path ''R/A/C''), DirCreated (Path ''R/D''),
               ProcessChild (Path ''R/D''), EmptyNode, GenerationDone 4, ReadmeGenerated]\<rparr>"
    by code_simp
  from generate_returns_sorted [THEN conjunct2, rule_format, OF h] h show ?thesis by blast
qed

section \<open>Paths and names\<close>










section \<open>Names that are not strings\<close>







section \<open>Facts about the file system of the examples\<close>






section \<open>Exceptions of the walk\<close>





section \<open>The report\<close>

lemma tree_line_fallback:
  "relative_to (Path dir_path) root = Inl e \<Longrightarrow> tree_line root dir_path = Inr (''- '' @ dir_path)"
  by (auto simp: tree_line_def relative_to_def split: if_splits)

lemma tree_line_relative:
  "relative_to (Path dir_path) root = Inr rel \<Longrightarrow> names rel \<noteq> [] \<Longrightarrow>
   tree_line root dir_path
     = Inr (concat (replicate (length (names rel) - 1) ''    '') @ ''- '' @ last (names rel))"
  by (auto simp: tree_line_def relative_to_def parts_def Let_def split: if_splits)

lemma tree_line_root:
  "relative_to (Path dir_path) root = Inr rel \<Longrightarrow> names rel = [] \<Longrightarrow>
   tree_line root dir_path = Inl IndexError"
  by (auto simp: tree_line_def relative_to_def parts_def Let_def split: if_splits)

text \<open>
  Claim C7. A created path that is the root itself is relative to the root with no
  parts; \<^verbatim>\<open>rel_path.parts[-1]\<close> then raises \<^verbatim>\<open>IndexError\<close>, which the handler for
  \<^verbatim>\<open>ValueError\<close> does not catch: no line is rendered and \<open>generate\<close> raises. Here the
  root \<open>/R\<close> is recorded through a name that strips to the empty string.
\<close>

theorem report_fails_on_root:
  "created_dirs (state_of (process_node (sim_env {}) (YList [YScalar (SStr '' '')]) (Path ''/R'') (new_generator {})))
     = {|''/R''|}
   \<and> relative_to (Path ''/R'') (Path ''/R'') = Inr \<lparr>anchor = '''', names = []\<rparr>
   \<and> dir_tree (Path ''/R'') [''/R''] = Inl IndexError
   \<and> raised (generate (sim_env {}) (YList [YScalar (SStr '' '')]) (Path ''/R'') (new_generator {}))
     = Some IndexError"
  by code_simp

section \<open>Names that strip to the empty string\<close>








section \<open>Where the created directories lie\<close>




























section \<open>Running twice: the walk\<close>



lemma dirs_eq_sym: "dirs_eq env f g \<Longrightarrow> dirs_eq env g f"
  by (simp add: dirs_eq_def)





























section \<open>Running twice: the file system of the examples obeys the laws\<close>










section \<open>Running twice: the driver\<close>














end
